theory Spec2Isabelle
  imports Complex_Main "HOL-Library.Char_ord"
begin

section \<open>Vacation Booking API: data model\<close>

text \<open>
  The persistent store is the MySQL database behind Sequelize. A table is the list of
  its rows in insertion order. The columns of a reservation are those of
  \<^verbatim>\<open>sequelize.define\<close> in sequelize.js, the two timestamps that \<^verbatim>\<open>define\<close> adds when
  it is given no options (\<^verbatim>\<open>createdAt\<close>, \<^verbatim>\<open>updatedAt\<close>), and the foreign keys that
  \<^verbatim>\<open>hasMany\<close> and \<^verbatim>\<open>belongsTo\<close> add (\<^verbatim>\<open>PropertyId\<close>, \<^verbatim>\<open>UserId\<close>). Primary keys
  are integers. The value of a \<^verbatim>\<open>DATETIME\<close> column is an integer, in the unit and the
  zone the column keeps (whole seconds); the order of the integers is the order in
  which the store compares the column.
\<close>

record reservation =
  rid :: int
  arrivalTime :: int
  departureTime :: int
  createdAt :: int
  updatedAt :: int
  PropertyId :: int
  UserId :: int

text \<open>
  A \<^verbatim>\<open>FLOAT\<close> price is the rational number it denotes; only the order of prices is
  used.
\<close>

record property =
  pid :: int
  name :: string
  address :: string
  city :: string
  price :: rat
  capacity :: int

text \<open>
  The three tables: the reservations, the properties, and of the users the keys, which
  is all the reservation routes depend on (through the foreign key).
\<close>

record store =
  reservations :: "reservation list"
  properties :: "property list"
  users :: "int list"

text \<open>
  The JSON body of a reservation write, as the handlers get it from
  \<^verbatim>\<open>validateReservation\<close>: the two dates are the strings the client sent.
  The handlers destructure three members; \<open>others\<close> holds every further member a
  client may send (an \<^verbatim>\<open>UserId\<close>, an \<^verbatim>\<open>id\<close>, ...), as name and value.
\<close>

record reservation_body =
  propertyId :: int
  body_arrivalTime :: string
  body_departureTime :: string
  others :: "(string \<times> string) list"

text \<open>
  The decoded token that \<^verbatim>\<open>authenticateJWT\<close> stores in \<^verbatim>\<open>req.user\<close>: signup and
  signin sign \<^verbatim>\<open>{ userId: user.id }\<close>.
\<close>

record jwt_payload =
  userId :: int

text \<open>
  The body of \<^verbatim>\<open>POST /signup\<close> and the query string of \<^verbatim>\<open>GET /properties\<close>
  (\<open>None\<close> for a parameter the request does not carry).
\<close>

record signup_body =
  email :: string
  password :: string
  firstName :: string
  lastName :: string
  phoneNumber :: string

record properties_query =
  q_capacity :: "string option"
  q_sort :: "string option"
  q_offset :: "string option"

text \<open>
  A Sequelize instance as \<^verbatim>\<open>res.send\<close> serialises it after a write. A date member is
  either the date the driver made of a column value when the row was loaded, or a
  JavaScript \<^verbatim>\<open>Date\<close> made in the server process, given by its milliseconds since the
  epoch (\<open>None\<close> for \<^verbatim>\<open>Invalid Date\<close>, which is sent as \<^verbatim>\<open>null\<close>).
\<close>

datatype date_member = Column int | JSDate "int option"

record model_instance =
  i_id :: int
  i_arrivalTime :: date_member
  i_departureTime :: date_member
  i_createdAt :: date_member
  i_updatedAt :: date_member
  i_PropertyId :: int
  i_UserId :: int

text \<open>
  What \<^verbatim>\<open>res.status(..).send(..)\<close> and \<^verbatim>\<open>res.status(..).json(..)\<close> put on the
  wire: the status code (200 when the handler sets none) and the JSON value. A row that
  was only read is sent as the row; of a validation error only the message is kept.
  \<open>NoResponse\<close> is the outcome of a handler whose promise rejects: the handlers have no
  \<^verbatim>\<open>catch\<close>, so nothing is sent.
\<close>

datatype json =
  Error string
  | Errors "string list"
  | Message string
  | Reservation reservation
  | Reservations "reservation list"
  | Instance model_instance
  | Properties "property list"

datatype response = Response nat json | NoResponse

text \<open>
  What a request meets outside the source of this repository. \<open>jsDate\<close> is
  \<^verbatim>\<open>new Date(str).getTime()\<close>, with \<open>None\<close> for \<^verbatim>\<open>NaN\<close>. \<open>whereDate\<close> is how the
  store evaluates a date string that a \<^verbatim>\<open>where\<close> object compares a \<^verbatim>\<open>DATETIME\<close>
  column with: as a column value, as \<^verbatim>\<open>NULL\<close> (no comparison with it holds), or not at
  all (the statement is rejected). \<open>columnDate\<close> is the column value the store keeps
  when a date member of an instance is set from the string and saved, \<open>None\<close> when
  the store rejects the write. The three readings are independent: Sequelize hands the
  string of a \<^verbatim>\<open>where\<close> object to the store by another route than the value of a
  member. \<open>loadDate\<close> gives the milliseconds of the \<^verbatim>\<open>Date\<close> that the driver makes
  of a column value when a row is loaded (\<open>None\<close> when that is no valid date).
  \<open>insertId\<close> is the key that \<^verbatim>\<open>autoIncrement\<close> gives to an inserted row,
  \<open>now\<close> the clock of the server process when Sequelize stamps an instance, and
  \<open>nowColumn\<close> the column value the store keeps for that stamp.
\<close>

datatype query_value = Value int | Null | Rejected

record runtime =
  jsDate :: "string \<Rightarrow> int option"
  whereDate :: "string \<Rightarrow> query_value"
  columnDate :: "string \<Rightarrow> int option"
  loadDate :: "int \<Rightarrow> int option"
  insertId :: int
  now :: int
  nowColumn :: int

section \<open>Auth gate: middleware/authenticateJWT.js\<close>

text \<open>
  \<^verbatim>\<open>String.prototype.startsWith\<close> and \<^verbatim>\<open>String.prototype.replace\<close> with a string
  pattern, which replaces the first occurrence only.
\<close>

definition startsWith :: "string \<Rightarrow> string \<Rightarrow> bool" where
  "startsWith s p = (take (length p) s = p)"

fun replace :: "string \<Rightarrow> string \<Rightarrow> string \<Rightarrow> string" where
  "replace [] p r = (if p = [] then r else [])"
| "replace (c # cs) p r =
     (if startsWith (c # cs) p then r @ drop (length p) (c # cs)
      else c # replace cs p r)"

text \<open>
  A middleware either sends a response, and the rest of the chain never runs
  (\<open>Inl\<close>), or calls \<^verbatim>\<open>next()\<close> (\<open>Inr\<close>, with what it attached to the request).
  \<open>verify\<close> is \<^verbatim>\<open>jwt.verify(token, process.env.JWT_SECRET)\<close>, the opaque signature
  and expiry check: \<open>None\<close> when it throws. The header is \<open>None\<close> when the request
  has no \<^verbatim>\<open>Authorization\<close> header; the empty string is falsy as well.
\<close>

definition authenticateJWT ::
  "(string \<Rightarrow> jwt_payload option) \<Rightarrow> string option \<Rightarrow> response + jwt_payload" where
  "authenticateJWT verify authHeader =
     (case authHeader of
        None \<Rightarrow> Inl (Response 401 (Error ''Access denied. No token provided.''))
      | Some h \<Rightarrow>
          if h = [] \<or> \<not> startsWith h ''Bearer ''
          then Inl (Response 401 (Error ''Access denied. No token provided.''))
          else (case verify (replace h ''Bearer '' []) of
                  Some decoded \<Rightarrow> Inr decoded
                | None \<Rightarrow> Inl (Response 400 (Error ''Invalid token.''))))"

section \<open>Reservation routes: routes/reservations.js\<close>

text \<open>
  The comparison \<^verbatim>\<open>new Date(x) <= new Date(y)\<close>: the two dates are compared as
  numbers, and a comparison with \<^verbatim>\<open>NaN\<close> is false.
\<close>

definition date_le :: "runtime \<Rightarrow> string \<Rightarrow> string \<Rightarrow> bool" where
  "date_le rt x y =
     (case jsDate rt x of
        None \<Rightarrow> False
      | Some a \<Rightarrow> (case jsDate rt y of None \<Rightarrow> False | Some b \<Rightarrow> a \<le> b))"

text \<open>
  The operators \<^verbatim>\<open>Op.lt\<close> and \<^verbatim>\<open>Op.gt\<close> of a \<^verbatim>\<open>where\<close> object, between a column
  and the value the store reads from the operand.
\<close>

definition Op_lt :: "int \<Rightarrow> query_value \<Rightarrow> bool" where
  "Op_lt c q = (case q of Value v \<Rightarrow> c < v | Null \<Rightarrow> False | Rejected \<Rightarrow> False)"

definition Op_gt :: "int \<Rightarrow> query_value \<Rightarrow> bool" where
  "Op_gt c q = (case q of Value v \<Rightarrow> c > v | Null \<Rightarrow> False | Rejected \<Rightarrow> False)"

text \<open>
  The store operations the handlers call. \<^verbatim>\<open>findAll({ where })\<close> keeps the rows that
  satisfy every condition of the \<^verbatim>\<open>where\<close> object; \<^verbatim>\<open>findByPk\<close> yields the row with
  the key, or null. \<^verbatim>\<open>create\<close> inserts a row under the key the store assigns and
  returns the instance; the store rejects the row when it rejects one of the dates or
  when the property or the user of the foreign keys does not exist.
  \<^verbatim>\<open>instance.update\<close> sets the two dates and the \<^verbatim>\<open>updatedAt\<close> stamp of the instance
  and writes them to the rows with the instance's key; when neither date differs from
  the date the instance was loaded with, Sequelize sees no change and sends no
  statement. \<^verbatim>\<open>instance.destroy\<close> deletes the rows with the instance's key. The column
  \<^verbatim>\<open>propertyId\<close> of the two overlap queries is the foreign key \<^verbatim>\<open>PropertyId\<close> (MySQL
  column names ignore case).
\<close>

definition findByPk :: "store \<Rightarrow> int \<Rightarrow> reservation option" where
  "findByPk s k = find (\<lambda>r. rid r = k) (reservations s)"

definition findAll :: "store \<Rightarrow> (reservation \<Rightarrow> bool) \<Rightarrow> reservation list" where
  "findAll s wh = filter wh (reservations s)"

definition create ::
  "runtime \<Rightarrow> store \<Rightarrow> int \<Rightarrow> string \<Rightarrow> string \<Rightarrow> int \<Rightarrow> (model_instance \<times> store) option" where
  "create rt s prop arr dep usr =
     (case columnDate rt arr of
        None \<Rightarrow> None
      | Some ca \<Rightarrow>
          (case columnDate rt dep of
             None \<Rightarrow> None
           | Some cd \<Rightarrow>
               if prop \<in> set (map pid (properties s)) \<and> usr \<in> set (users s)
               then Some
                 (\<lparr>i_id = insertId rt, i_arrivalTime = JSDate (jsDate rt arr),
                   i_departureTime = JSDate (jsDate rt dep),
                   i_createdAt = JSDate (Some (now rt)), i_updatedAt = JSDate (Some (now rt)),
                   i_PropertyId = prop, i_UserId = usr\<rparr>,
                  s\<lparr>reservations := reservations s @
                      [\<lparr>rid = insertId rt, arrivalTime = ca, departureTime = cd,
                        createdAt = nowColumn rt, updatedAt = nowColumn rt,
                        PropertyId = prop, UserId = usr\<rparr>]\<rparr>)
               else None))"

definition date_unchanged :: "runtime \<Rightarrow> string \<Rightarrow> int \<Rightarrow> bool" where
  "date_unchanged rt str c =
     (case jsDate rt str of
        None \<Rightarrow> False
      | Some a \<Rightarrow> (case loadDate rt c of None \<Rightarrow> False | Some b \<Rightarrow> a = b))"

definition update ::
  "runtime \<Rightarrow> store \<Rightarrow> reservation \<Rightarrow> string \<Rightarrow> string \<Rightarrow> (model_instance \<times> store) option" where
  "update rt s r arr dep =
     (let reservation =
            \<lparr>i_id = rid r, i_arrivalTime = JSDate (jsDate rt arr),
             i_departureTime = JSDate (jsDate rt dep),
             i_createdAt = Column (createdAt r), i_updatedAt = JSDate (Some (now rt)),
             i_PropertyId = PropertyId r, i_UserId = UserId r\<rparr>
      in if date_unchanged rt arr (arrivalTime r) \<and> date_unchanged rt dep (departureTime r)
         then Some (reservation, s)
         else
           (case columnDate rt arr of
              None \<Rightarrow> None
            | Some ca \<Rightarrow>
                (case columnDate rt dep of
                   None \<Rightarrow> None
                 | Some cd \<Rightarrow>
                     Some
                       (reservation,
                        s\<lparr>reservations :=
                            map (\<lambda>e. if rid e = rid r
                                     then e\<lparr>arrivalTime := ca, departureTime := cd,
                                            updatedAt := nowColumn rt\<rparr>
                                     else e)
                              (reservations s)\<rparr>))))"

definition destroy :: "store \<Rightarrow> reservation \<Rightarrow> store" where
  "destroy s r = s\<lparr>reservations := filter (\<lambda>e. rid e \<noteq> rid r) (reservations s)\<rparr>"

text \<open>
  The handlers, after \<^verbatim>\<open>authenticateJWT\<close> (which supplies \<open>user\<close>) and, for the two
  writes, \<^verbatim>\<open>validateReservation\<close>. Each returns the response and the store it leaves.
  The range check reads the two strings with \<^verbatim>\<open>new Date\<close>; the overlap query and the
  write get the strings themselves. A query or a write that the store rejects rejects
  the handler's promise.
\<close>

definition post_reservation ::
  "runtime \<Rightarrow> jwt_payload \<Rightarrow> reservation_body \<Rightarrow> store \<Rightarrow> response \<times> store" where
  "post_reservation rt user b s =
     (if date_le rt (body_departureTime b) (body_arrivalTime b)
      then (Response 400 (Error ''departureTime must be after arrivalTime.''), s)
      else if whereDate rt (body_departureTime b) = Rejected
              \<or> whereDate rt (body_arrivalTime b) = Rejected
      then (NoResponse, s)
      else
        let existingReservations =
              findAll s (\<lambda>e. PropertyId e = propertyId b
                            \<and> Op_lt (arrivalTime e) (whereDate rt (body_departureTime b))
                            \<and> Op_gt (departureTime e) (whereDate rt (body_arrivalTime b)))
        in if length existingReservations > 0
           then (Response 400 (Error ''The property is already booked for the requested dates.''), s)
           else
             (case create rt s (propertyId b) (body_arrivalTime b) (body_departureTime b)
                     (userId user) of
                None \<Rightarrow> (NoResponse, s)
              | Some (reservation, s') \<Rightarrow> (Response 201 (Instance reservation), s')))"

definition get_reservations :: "jwt_payload \<Rightarrow> store \<Rightarrow> response \<times> store" where
  "get_reservations user s =
     (Response 200 (Reservations (findAll s (\<lambda>e. UserId e = userId user))), s)"

definition get_reservation :: "jwt_payload \<Rightarrow> int \<Rightarrow> store \<Rightarrow> response \<times> store" where
  "get_reservation user k s =
     (case findByPk s k of
        None \<Rightarrow> (Response 404 (Error ''Reservation not found.''), s)
      | Some r \<Rightarrow> (Response 200 (Reservation r), s))"

definition put_reservation ::
  "runtime \<Rightarrow> jwt_payload \<Rightarrow> int \<Rightarrow> reservation_body \<Rightarrow> store \<Rightarrow> response \<times> store" where
  "put_reservation rt user k b s =
     (case findByPk s k of
        None \<Rightarrow> (Response 404 (Error ''Reservation not found.''), s)
      | Some r \<Rightarrow>
          if date_le rt (body_departureTime b) (body_arrivalTime b)
          then (Response 400 (Error ''departureTime must be after arrivalTime.''), s)
          else if whereDate rt (body_departureTime b) = Rejected
                  \<or> whereDate rt (body_arrivalTime b) = Rejected
          then (NoResponse, s)
          else
            let existingReservations =
                  findAll s (\<lambda>e. PropertyId e = PropertyId r
                                \<and> Op_lt (arrivalTime e) (whereDate rt (body_departureTime b))
                                \<and> Op_gt (departureTime e) (whereDate rt (body_arrivalTime b))
                                \<and> rid e \<noteq> rid r)
            in if length existingReservations > 0
               then (Response 400
                       (Error ''The property is already booked for the requested dates.''), s)
               else
                 (case update rt s r (body_arrivalTime b) (body_departureTime b) of
                    None \<Rightarrow> (NoResponse, s)
                  | Some (reservation, s') \<Rightarrow> (Response 200 (Instance reservation), s')))"

definition delete_reservation :: "jwt_payload \<Rightarrow> int \<Rightarrow> store \<Rightarrow> response \<times> store" where
  "delete_reservation user k s =
     (case findByPk s k of
        None \<Rightarrow> (Response 404 (Error ''Reservation not found.''), s)
      | Some r \<Rightarrow> (Response 200 (Message ''Reservation deleted successfully.''), destroy s r))"

text \<open>
  A bearer-protected route: the auth gate first, the handler only when the gate calls
  \<^verbatim>\<open>next()\<close>. A response sent by the gate leaves the store as it is.
\<close>

definition protected ::
  "(string \<Rightarrow> jwt_payload option) \<Rightarrow> string option \<Rightarrow>
   (jwt_payload \<Rightarrow> store \<Rightarrow> response \<times> store) \<Rightarrow> store \<Rightarrow> response \<times> store" where
  "protected verify authHeader handler s =
     (case authenticateJWT verify authHeader of
        Inl resp \<Rightarrow> (resp, s)
      | Inr user \<Rightarrow> handler user s)"

section \<open>Validation pipeline: middleware/middleware.js\<close>

text \<open>
  A validation chain of express-validator is a list of checks on one field, each with
  the message of \<^verbatim>\<open>withMessage\<close>. Every check of the chain runs, and every failing
  one contributes its message, in order. Strings are lists of 8-bit characters;
  \<^verbatim>\<open>isLength\<close> counts them, \<^verbatim>\<open>notEmpty\<close> asks for at least one, and
  \<^verbatim>\<open>matches\<close> with an unanchored one-character class asks for a character of the class
  somewhere in the string.
\<close>

type_synonym validator = "(string \<Rightarrow> bool) \<times> string"

definition run_validators :: "validator list \<Rightarrow> string \<Rightarrow> string list" where
  "run_validators chain v = map snd (filter (\<lambda>(ok, msg). \<not> ok v) chain)"

definition isLength_min :: "nat \<Rightarrow> string \<Rightarrow> bool" where
  "isLength_min n v = (n \<le> length v)"

definition notEmpty :: "string \<Rightarrow> bool" where
  "notEmpty v = (v \<noteq> [])"

definition matches_class :: "(char \<Rightarrow> bool) \<Rightarrow> string \<Rightarrow> bool" where
  "matches_class cls v = list_ex cls v"

text \<open>
  The classes \<^verbatim>\<open>[A-Z]\<close>, \<^verbatim>\<open>[a-z]\<close> and \<^verbatim>\<open>[!@#$%^&*(),.?":{}|<>]\<close> of
  \<^verbatim>\<open>validateUser\<close>, and the four checks of its password chain.
\<close>

definition upper_class :: "char \<Rightarrow> bool" where
  "upper_class c = (CHR ''A'' \<le> c \<and> c \<le> CHR ''Z'')"

definition lower_class :: "char \<Rightarrow> bool" where
  "lower_class c = (CHR ''a'' \<le> c \<and> c \<le> CHR ''z'')"

definition special_class :: "char \<Rightarrow> bool" where
  "special_class c = (c \<in> set (''!@#$%^&*(),.?'' @ [CHR 0x22] @ '':{}|<>''))"

definition password_validators :: "validator list" where
  "password_validators =
     [(isLength_min 10, ''Password must be at least 10 characters long''),
      (matches_class upper_class, ''Password must contain at least one uppercase letter''),
      (matches_class lower_class, ''Password must contain at least one lowercase letter''),
      (matches_class special_class, ''Password must contain at least one special character'')]"

text \<open>
  The second check of the email chain, the pattern \<^verbatim>\<open>^[^\s@]+@[^\s@]+\.[^\s@]+$\<close>:
  one \<^verbatim>\<open>@\<close>, no white space, a non-empty local part, and a dot inside the part after
  the \<^verbatim>\<open>@\<close> with a character on each side. The first check, \<^verbatim>\<open>isEmail\<close> of the
  validator library, is a parameter.
\<close>

definition regex_space :: "char \<Rightarrow> bool" where
  "regex_space c = (c \<in> set [CHR 0x09, CHR 0x0A, CHR 0x0B, CHR 0x0C, CHR 0x0D, CHR '' '', CHR 0xA0])"

definition email_format :: "string \<Rightarrow> bool" where
  "email_format v =
     (let local_part = takeWhile (\<lambda>c. c \<noteq> CHR ''@'') v;
          rest = dropWhile (\<lambda>c. c \<noteq> CHR ''@'') v
      in local_part \<noteq> [] \<and> list_all (\<lambda>c. \<not> regex_space c) local_part \<and>
         (case rest of
            [] \<Rightarrow> False
          | sep # domain_part \<Rightarrow>
              list_all (\<lambda>c. \<not> regex_space c \<and> c \<noteq> CHR ''@'') domain_part \<and>
              list_ex (\<lambda>i. domain_part ! i = CHR ''.'') [1 ..< length domain_part - 1]))"

definition validateUser :: "(string \<Rightarrow> bool) \<Rightarrow> signup_body \<Rightarrow> response + unit" where
  "validateUser isEmail b =
     (let errors =
            run_validators
              [(isEmail, ''Must be a valid email''),
               (email_format, ''Must be a valid email format'')] (email b)
            @ run_validators password_validators (password b)
            @ run_validators [(notEmpty, ''First name is required'')] (firstName b)
            @ run_validators [(notEmpty, ''Last name is required'')] (lastName b)
            @ run_validators [(notEmpty, ''Phone number is required'')] (phoneNumber b)
      in if errors \<noteq> [] then Inl (Response 400 (Errors errors)) else Inr ())"

text \<open>
  The chain of the two reservation writes. \<^verbatim>\<open>isISO8601\<close> of the validator library is
  a parameter; without its \<^verbatim>\<open>strict\<close> option it admits strings that \<^verbatim>\<open>new Date\<close>
  does not read.
\<close>

definition validateReservation ::
  "(string \<Rightarrow> bool) \<Rightarrow> reservation_body \<Rightarrow> response + unit" where
  "validateReservation isISO8601 b =
     (let errors =
            run_validators [(isISO8601, ''Must be a valid date'')] (body_arrivalTime b)
            @ run_validators [(isISO8601, ''Must be a valid date'')] (body_departureTime b)
      in if errors \<noteq> [] then Inl (Response 400 (Errors errors)) else Inr ())"

section \<open>Property listing: routes/properties.js\<close>


text \<open>
  The other revision reads \<^verbatim>\<open>capacity\<close>, \<^verbatim>\<open>sort\<close> and \<^verbatim>\<open>offset\<close>. Its numbers
  are JavaScript numbers: \<^verbatim>\<open>NaN\<close>, an infinity, or a double, which here always has
  an integer value. \<open>to_double\<close> rounds an integer to the nearest double, ties to the
  even significand of 53 bits, and to an infinity from \<open>2 ^ 1024\<close> on.
\<close>

datatype jsnum = NaN | Infinite bool | Num int

fun bit_length :: "nat \<Rightarrow> nat" where
  "bit_length n = (if n = 0 then 0 else Suc (bit_length (n div 2)))"

declare bit_length.simps [simp del]

definition to_double :: "int \<Rightarrow> jsnum" where
  "to_double n =
     (let m = nat \<bar>n\<bar>; bits = bit_length m
      in if bits \<le> 53 then Num n
         else
           let sh = bits - 53; q = m div 2 ^ sh; r = m mod 2 ^ sh; half = 2 ^ (sh - 1);
               q' = (if r > half \<or> (r = half \<and> odd q) then q + 1 else q)
           in if q' * 2 ^ sh \<ge> 2 ^ 1024 then Infinite (n < 0)
              else Num ((if n < 0 then - 1 else 1) * int (q' * 2 ^ sh)))"

text \<open>
  \<^verbatim>\<open>parseInt(str, 10)\<close>: leading white space, an optional sign, then the longest run
  of decimal digits; \<^verbatim>\<open>NaN\<close> when there is no digit, else the double nearest to the
  integer the digits denote. \<open>times_js\<close> is the product of a number and a positive
  integer constant.
\<close>

definition digit_class :: "char \<Rightarrow> bool" where
  "digit_class c = (CHR ''0'' \<le> c \<and> c \<le> CHR ''9'')"

definition parseInt :: "string \<Rightarrow> jsnum" where
  "parseInt str =
     (let t = dropWhile regex_space str;
          (negative, u) =
            (case t of
               [] \<Rightarrow> (False, t)
             | c # r \<Rightarrow> if c = CHR ''-'' then (True, r)
                        else if c = CHR ''+'' then (False, r) else (False, t));
          ds = takeWhile digit_class u
      in if ds = [] then NaN
         else to_double ((if negative then - 1 else 1) *
                         foldl (\<lambda>a c. 10 * a + (of_char c - 48)) 0 ds))"

definition times_js :: "jsnum \<Rightarrow> nat \<Rightarrow> jsnum" where
  "times_js x k = (case x of NaN \<Rightarrow> NaN | Infinite neg \<Rightarrow> Infinite neg | Num n \<Rightarrow> to_double (n * int k))"

text \<open>
  \<^verbatim>\<open>Property.findAll({ where, order, limit, offset })\<close>: the rows that pass the filter,
  ordered by price in the given direction, then \<open>offset\<close> rows skipped and at most
  \<open>limit\<close> kept. Rows of equal price stay in table order (SQL leaves their order
  open). Sequelize prints the numbers into the statement. The statement fails, and the
  handler's \<^verbatim>\<open>catch\<close> answers 500, when the offset is not a number from 0 up to the
  largest that \<^verbatim>\<open>LIMIT\<close> takes (below \<open>2 ^ 64\<close>), or when the filter value is
  \<^verbatim>\<open>NaN\<close> or an infinity. An offset beyond \<open>2 ^ 53\<close> skips every row of a table
  that a database can hold.
\<close>

definition order_by_price :: "string \<Rightarrow> property list \<Rightarrow> property list" where
  "order_by_price dir rows =
     (if dir = ''desc'' then sort_key (\<lambda>p. - price p) rows else sort_key price rows)"

definition Property_findAll ::
  "property list \<Rightarrow> jsnum option \<Rightarrow> string \<Rightarrow> nat \<Rightarrow> jsnum \<Rightarrow> unit + property list" where
  "Property_findAll table where_capacity dir row_limit row_offset =
     (case row_offset of
        NaN \<Rightarrow> Inl ()
      | Infinite neg \<Rightarrow> Inl ()
      | Num k \<Rightarrow>
          if k < 0 \<or> k \<ge> 2 ^ 64 then Inl ()
          else (case where_capacity of
                  None \<Rightarrow> Inr (take row_limit (drop (nat k) (order_by_price dir table)))
                | Some NaN \<Rightarrow> Inl ()
                | Some (Infinite neg) \<Rightarrow> Inl ()
                | Some (Num n) \<Rightarrow>
                    Inr (take row_limit (drop (nat k)
                      (order_by_price dir (filter (\<lambda>p. capacity p = n) table))))))"

text \<open>
  The handler of \<^verbatim>\<open>GET /properties\<close> in this revision. An empty string is falsy, so
  an empty parameter counts as absent; \<open>offset\<close> is a page number, multiplied by the
  limit.
\<close>

definition get_properties_paged :: "properties_query \<Rightarrow> property list \<Rightarrow> response" where
  "get_properties_paged q table =
     (let filter_capacity =
            (case q_capacity q of
               None \<Rightarrow> None
             | Some c \<Rightarrow> if c = [] then None else Some (parseInt c));
          order =
            (case q_sort q of
               None \<Rightarrow> ''asc''
             | Some srt \<Rightarrow>
                 if srt \<noteq> [] \<and> (srt = ''asc'' \<or> srt = ''desc'') then srt else ''asc'');
          pagination_limit = 6;
          pagination_offset =
            (case q_offset q of
               None \<Rightarrow> Num 0
             | Some off \<Rightarrow> if off = [] then Num 0 else parseInt off)
      in case Property_findAll table filter_capacity order pagination_limit
                (times_js pagination_offset pagination_limit) of
           Inr found \<Rightarrow> Response 200 (Properties found)
         | Inl error \<Rightarrow> Response 500 (Error ''Failed to retrieve properties.''))"

section \<open>The error taxonomy and the predicates of the specification\<close>

text \<open>
  The three failures of the reservation routes, as the responses the handlers send for
  them, and the half-open interval overlap test in the specification's words:
  \<^verbatim>\<open>existing.arrivalTime < newDeparture AND existing.departureTime > newArrival\<close>, on the
  same property. The new arrival and departure are column values: what the store reads
  from the two strings of the request in the query.
\<close>

definition RangeInvalid :: response where
  "RangeInvalid = Response 400 (Error ''departureTime must be after arrivalTime.'')"

definition BookingConflict :: response where
  "BookingConflict =
     Response 400 (Error ''The property is already booked for the requested dates.'')"

definition NotFound :: response where
  "NotFound = Response 404 (Error ''Reservation not found.'')"

definition overlaps :: "reservation \<Rightarrow> int \<Rightarrow> int \<Rightarrow> int \<Rightarrow> bool" where
  "overlaps e prop newArrival newDeparture =
     (PropertyId e = prop \<and> arrivalTime e < newDeparture \<and> departureTime e > newArrival)"

text \<open>
  The password rule in the specification's words: minimum length 10, an uppercase
  letter, a lowercase letter and a special character, where the letters are the ASCII
  letters and the special characters are the twenty of the source's class.
\<close>

definition password_policy :: "string \<Rightarrow> bool" where
  "password_policy pw =
     (length pw \<ge> 10 \<and> (\<exists>c\<in>set pw. upper_class c) \<and> (\<exists>c\<in>set pw. lower_class c)
      \<and> (\<exists>c\<in>set pw. special_class c))"

text \<open>
  The header \<^verbatim>\<open>Authorization: Bearer <token>\<close> that carries a token.
\<close>

definition bearer :: "string \<Rightarrow> string" where
  "bearer token = ''Bearer '' @ token"

section \<open>Sample data\<close>

text \<open>
  A token check that knows two callers. A server in UTC: \<^verbatim>\<open>new Date\<close> reads the listed
  date strings as midnight UTC, in milliseconds, and no other string; the store reads
  and keeps them as the same instants in seconds, and rejects what is not listed. A
  second server lies two hours east of UTC: there the store reads the date-only string
  of a \<^verbatim>\<open>where\<close> object as local midnight, two hours before the instant that
  \<^verbatim>\<open>new Date\<close> reads and that an insert keeps.
\<close>

definition demo_verify :: "string \<Rightarrow> jwt_payload option" where
  "demo_verify token =
     (if token = ''alice'' then Some \<lparr>userId = 1\<rparr>
      else if token = ''bob'' then Some \<lparr>userId = 2\<rparr> else None)"

definition demo_dates :: "(string \<times> int) list" where
  "demo_dates =
     [(''2025-01-01'', 1735689600), (''2025-01-03'', 1735862400),
      (''2025-01-05'', 1736035200), (''2025-01-09'', 1736380800),
      (''2025-01-10'', 1736467200), (''2025-01-15'', 1736899200),
      (''2025-01-20'', 1737331200), (''2025-01-30'', 1738195200)]"

definition demo_rt :: runtime where
  "demo_rt =
     \<lparr>jsDate = (\<lambda>str. map_option (\<lambda>t. t * 1000) (map_of demo_dates str)),
      whereDate = (\<lambda>str. case map_of demo_dates str of None \<Rightarrow> Rejected | Some t \<Rightarrow> Value t),
      columnDate = map_of demo_dates,
      loadDate = (\<lambda>c. Some (c * 1000)),
      insertId = 2, now = 1735700000123, nowColumn = 1735700000\<rparr>"

definition demo_rt_east :: runtime where
  "demo_rt_east =
     demo_rt\<lparr>whereDate :=
       (\<lambda>str. case map_of demo_dates str of None \<Rightarrow> Rejected | Some t \<Rightarrow> Value (t - 7200))\<rparr>"

text \<open>
  A request body without further members; a property of a given key, price and
  capacity; a store with two users, nine properties (eight of capacity 4, one of
  capacity 2) and one reservation, of the first user: property 1, from 2025-01-01 to
  2025-01-10.
\<close>

definition booking :: "int \<Rightarrow> string \<Rightarrow> string \<Rightarrow> reservation_body" where
  "booking p arr dep =
     \<lparr>propertyId = p, body_arrivalTime = arr, body_departureTime = dep, others = []\<rparr>"

definition mk_property :: "int \<Rightarrow> rat \<Rightarrow> int \<Rightarrow> property" where
  "mk_property k pr cap =
     \<lparr>pid = k, name = ''n'', address = ''a'', city = ''c'', price = pr, capacity = cap\<rparr>"

definition demo_properties :: "property list" where
  "demo_properties =
     [mk_property 1 50 4, mk_property 2 70 4, mk_property 3 10 2, mk_property 4 30 4,
      mk_property 5 90 4, mk_property 6 20 4, mk_property 7 60 4, mk_property 8 80 4,
      mk_property 9 40 4]"

definition demo_row :: reservation where
  "demo_row =
     \<lparr>rid = 1, arrivalTime = 1735689600, departureTime = 1736467200,
      createdAt = 1735000000, updatedAt = 1735000000, PropertyId = 1, UserId = 1\<rparr>"

definition demo_store :: store where
  "demo_store = \<lparr>reservations = [demo_row], properties = demo_properties, users = [1, 2]\<rparr>"

section \<open>Auxiliary facts\<close>

lemma startsWith_append: "startsWith (p @ t) p"
  by (simp add: startsWith_def)

lemma startsWith_iff: "startsWith h p \<longleftrightarrow> (\<exists>t. h = p @ t)"
  unfolding startsWith_def
  by (metis append_eq_conv_conj)

lemma replace_prefix: "replace (p @ t) p r = r @ t"
proof (cases "p @ t")
  case Nil
  then show ?thesis by simp
next
  case (Cons a list)
  have "startsWith (a # list) p"
    using startsWith_append [of p t] Cons by simp
  moreover have "drop (length p) (a # list) = t"
    using Cons by (metis append_eq_conv_conj)
  ultimately show ?thesis
    using Cons by simp
qed

lemma authenticateJWT_bearer:
  "authenticateJWT verify (Some (''Bearer '' @ tok)) =
     (case verify tok of Some d \<Rightarrow> Inr d | None \<Rightarrow> Inl (Response 400 (Error ''Invalid token.'')))"
proof -
  have "replace (''Bearer '' @ tok) ''Bearer '' [] = tok"
    using replace_prefix [of "''Bearer ''" tok "[]"] by simp
  moreover have "startsWith (''Bearer '' @ tok) ''Bearer ''"
    by (rule startsWith_append)
  ultimately show ?thesis
    unfolding authenticateJWT_def by (simp del: replace.simps append.simps)
qed

lemma protected_bearer:
  "verify tok = Some u \<Longrightarrow>
   protected verify (Some (bearer tok)) handler s = handler u s"
  unfolding protected_def bearer_def by (simp only: authenticateJWT_bearer) simp

lemma length_filter_pos: "(length (filter P xs) > 0) = (\<exists>x\<in>set xs. P x)"
  by (induction xs) auto



lemma put_cases:
  "whereDate rt (body_arrivalTime b) = Value A \<Longrightarrow>
   whereDate rt (body_departureTime b) = Value D \<Longrightarrow>
   put_reservation rt u k b s =
    (case findByPk s k of
       None \<Rightarrow> (NotFound, s)
     | Some r \<Rightarrow>
        if date_le rt (body_departureTime b) (body_arrivalTime b) then (RangeInvalid, s)
        else if (\<exists>e\<in>set (reservations s). rid e \<noteq> rid r \<and> overlaps e (PropertyId r) A D)
        then (BookingConflict, s)
        else (case update rt s r (body_arrivalTime b) (body_departureTime b) of
                None \<Rightarrow> (NoResponse, s)
              | Some (i, s') \<Rightarrow> (Response 200 (Instance i), s')))"
  unfolding put_reservation_def findAll_def RangeInvalid_def BookingConflict_def
    NotFound_def overlaps_def length_filter_pos Let_def Op_lt_def Op_gt_def
  by (auto split: option.splits)

text \<open>
  The range check fires exactly when \<^verbatim>\<open>new Date\<close> reads both strings and the
  departure is not after the arrival; a string it reads as \<^verbatim>\<open>Invalid Date\<close> switches
  the check off.
\<close>

lemma date_le_iff:
  "date_le rt x y \<longleftrightarrow> (\<exists>a b. jsDate rt x = Some a \<and> jsDate rt y = Some b \<and> a \<le> b)"
  by (auto simp: date_le_def split: option.splits)

lemma post_range_invalid_iff:
  "fst (post_reservation rt u b s) = RangeInvalid \<longleftrightarrow>
     date_le rt (body_departureTime b) (body_arrivalTime b)"
  unfolding post_reservation_def RangeInvalid_def Let_def
  by (auto split: option.splits prod.splits)

lemma invalid_date_skips_range_check:
  "jsDate rt (body_departureTime b) = None \<or> jsDate rt (body_arrivalTime b) = None \<Longrightarrow>
   fst (post_reservation rt u b s) \<noteq> RangeInvalid"
  by (auto simp: post_range_invalid_iff date_le_iff)

lemma password_errors_policy:
  "run_validators password_validators pw = [] \<longleftrightarrow> password_policy pw"
  by (simp add: run_validators_def password_validators_def password_policy_def
      isLength_min_def matches_class_def list_ex_iff)

lemma short_errors:
  "run_validators password_validators ''short1!'' =
     [''Password must be at least 10 characters long'',
      ''Password must contain at least one uppercase letter'']"
  by (simp add: run_validators_def password_validators_def isLength_min_def matches_class_def
      upper_class_def lower_class_def special_class_def less_eq_char_def)

lemma long_errors: "run_validators password_validators ''LongEnough1!'' = []"
  by (simp add: run_validators_def password_validators_def isLength_min_def matches_class_def
      upper_class_def lower_class_def special_class_def less_eq_char_def)

text \<open>
  The messages of the password chain in the error list of a signup: each is there
  exactly when its check fails on the password.
\<close>

lemma validateUser_cases:
  "validateUser isEmail b =
     (if isEmail (email b) \<and> email_format (email b) \<and> password_policy (password b) \<and>
         firstName b \<noteq> [] \<and> lastName b \<noteq> [] \<and> phoneNumber b \<noteq> []
      then Inr ()
      else Inl (Response 400 (Errors
        (run_validators
              [(isEmail, ''Must be a valid email''),
               (email_format, ''Must be a valid email format'')] (email b)
            @ run_validators password_validators (password b)
            @ run_validators [(notEmpty, ''First name is required'')] (firstName b)
            @ run_validators [(notEmpty, ''Last name is required'')] (lastName b)
            @ run_validators [(notEmpty, ''Phone number is required'')] (phoneNumber b)))))"
proof -
  have e: "run_validators
              [(isEmail, ''Must be a valid email''),
               (email_format, ''Must be a valid email format'')] (email b) = [] \<longleftrightarrow>
      isEmail (email b) \<and> email_format (email b)"
    by (simp add: run_validators_def)
  have n: "run_validators [(notEmpty, m)] v = [] \<longleftrightarrow> v \<noteq> []" for m v
    by (simp add: run_validators_def notEmpty_def)
  show ?thesis
    unfolding validateUser_def Let_def
    by (simp add: e n password_errors_policy del: append_is_Nil_conv)
       (auto simp: e n password_errors_policy)
qed

lemma password_messages:
  "''Password must be at least 10 characters long'' \<in> set (run_validators password_validators pw)
     \<longleftrightarrow> length pw < 10"
  "''Password must contain at least one uppercase letter''
     \<in> set (run_validators password_validators pw) \<longleftrightarrow> \<not> (\<exists>c\<in>set pw. upper_class c)"
  "''Password must contain at least one lowercase letter''
     \<in> set (run_validators password_validators pw) \<longleftrightarrow> \<not> (\<exists>c\<in>set pw. lower_class c)"
  "''Password must contain at least one special character''
     \<in> set (run_validators password_validators pw) \<longleftrightarrow> \<not> (\<exists>c\<in>set pw. special_class c)"
  by (auto simp: run_validators_def password_validators_def isLength_min_def matches_class_def
      list_ex_iff)

lemma email_messages:
  "m \<in> set (run_validators
              [(isEmail, ''Must be a valid email''),
               (email_format, ''Must be a valid email format'')] v) \<Longrightarrow>
   m = ''Must be a valid email'' \<or> m = ''Must be a valid email format''"
  by (auto simp: run_validators_def split: if_splits)

lemma notEmpty_messages: "m \<in> set (run_validators [(notEmpty, t)] v) \<Longrightarrow> m = t"
  by (auto simp: run_validators_def split: if_splits)

lemma bit_length_bound: "m < 2 ^ k \<Longrightarrow> bit_length m \<le> k"
proof (induction k arbitrary: m)
  case 0
  then have "m = 0" by simp
  then show ?case
    by (simp add: bit_length.simps [of 0])
next
  case (Suc k)
  have "m div 2 < 2 ^ k"
    using Suc.prems by simp
  then have "bit_length (m div 2) \<le> k"
    by (rule Suc.IH)
  then show ?case
    by (simp add: bit_length.simps [of m])
qed

lemma to_double_exact: "\<bar>n\<bar> < 2 ^ 53 \<Longrightarrow> to_double n = Num n"
proof -
  assume "\<bar>n\<bar> < 2 ^ 53"
  then have "nat \<bar>n\<bar> < 2 ^ 53"
    by (simp add: nat_less_iff)
  then have "bit_length (nat \<bar>n\<bar>) \<le> 53"
    by (rule bit_length_bound)
  then show ?thesis
    by (simp add: to_double_def Let_def)
qed

lemma parseInt_samples: "parseInt ''4'' = Num 4" "parseInt ''0'' = Num 0"
  by (simp_all add: parseInt_def regex_space_def digit_class_def less_eq_char_def
      to_double_exact)

lemma order_by_price_set: "set (order_by_price dir rows) = set rows"
  by (simp add: order_by_price_def)

lemma order_by_price_sorted:
  "if dir = ''desc'' then sorted_wrt (\<ge>) (map price (order_by_price dir rows))
   else sorted (map price (order_by_price dir rows))"
proof (cases "dir = ''desc''")
  case True
  have "sorted (map (\<lambda>p. - price p) (sort_key (\<lambda>p. - price p) rows))"
    by (rule sorted_sort_key)
  then have "sorted_wrt (\<ge>) (map price (sort_key (\<lambda>p. - price p) rows))"
    by (simp add: sorted_wrt_map)
  with True show ?thesis
    by (simp add: order_by_price_def)
next
  case False
  then show ?thesis
    by (simp add: order_by_price_def)
qed

lemma page_sorted:
  "(if dir = ''desc'' then sorted_wrt (\<ge>) (map price rows) else sorted (map price rows)) \<Longrightarrow>
   (if dir = ''desc'' then sorted_wrt (\<ge>) (map price (take n (drop k rows)))
    else sorted (map price (take n (drop k rows))))"
  by (auto simp: take_map [symmetric] drop_map [symmetric] sorted_wrt_take sorted_wrt_drop
      split: if_splits)

lemma page_set: "set (take n (drop k rows)) \<subseteq> set rows"
  by (meson set_drop_subset set_take_subset subset_trans)

lemma Property_findAll_result:
  "Property_findAll table where_capacity dir row_limit row_offset = Inr ps \<Longrightarrow>
   length ps \<le> row_limit \<and> set ps \<subseteq> set table \<and>
   (\<forall>n. where_capacity = Some (Num n) \<longrightarrow> (\<forall>p\<in>set ps. capacity p = n)) \<and>
   (if dir = ''desc'' then sorted_wrt (\<ge>) (map price ps) else sorted (map price ps))"
proof -
  assume a: "Property_findAll table where_capacity dir row_limit row_offset = Inr ps"
  then obtain k where k: "row_offset = Num k"
    by (cases row_offset) (auto simp: Property_findAll_def)
  define rows where "rows =
    (case where_capacity of None \<Rightarrow> table | Some n \<Rightarrow> filter (\<lambda>p. Num (capacity p) = n) table)"
  from a k have ps: "ps = take row_limit (drop (nat k) (order_by_price dir rows))"
    by (auto simp: Property_findAll_def rows_def split: option.splits jsnum.splits if_splits)
  have sub: "set rows \<subseteq> set table"
    by (auto simp: rows_def split: option.splits)
  have cap: "where_capacity = Some (Num n) \<Longrightarrow> \<forall>p\<in>set rows. capacity p = n" for n
    by (auto simp: rows_def)
  have "set ps \<subseteq> set rows"
    unfolding ps using page_set [of row_limit "nat k" "order_by_price dir rows"]
    by (simp add: order_by_price_set)
  moreover have "length ps \<le> row_limit"
    unfolding ps by simp
  moreover have "if dir = ''desc'' then sorted_wrt (\<ge>) (map price ps) else sorted (map price ps)"
    unfolding ps by (rule page_sorted) (rule order_by_price_sorted)
  ultimately show ?thesis
    using sub cap by blast
qed

text \<open>
  The revision with query handling keeps the listing contract: every list it answers
  has at most 6 properties of the table, of the given capacity when one is given,
  ordered by price in the given direction; and it answers a list when the capacity, if
  given, parses as a number and the page, if given, as a number from 0 whose product
  with the limit is a safe integer.
\<close>

lemma paged_listing_contract:
  "((\<forall>c. q_capacity q = Some c \<and> c \<noteq> [] \<longrightarrow> (\<exists>n. parseInt c = Num n)) \<and>
    (\<forall>off. q_offset q = Some off \<and> off \<noteq> [] \<longrightarrow>
       (\<exists>k. 0 \<le> k \<and> k * 6 < 2 ^ 53 \<and> parseInt off = Num k))
      \<longrightarrow> (\<exists>ps. get_properties_paged q table = Response 200 (Properties ps))) \<and>
   (\<forall>ps. get_properties_paged q table = Response 200 (Properties ps) \<longrightarrow>
      length ps \<le> 6 \<and> set ps \<subseteq> set table \<and>
      (\<forall>c. q_capacity q = Some c \<and> c \<noteq> [] \<longrightarrow>
         (\<forall>p\<in>set ps. Num (capacity p) = parseInt c)) \<and>
      (if q_sort q = Some ''desc'' then sorted_wrt (\<ge>) (map price ps)
       else sorted (map price ps)))"
proof (intro conjI allI impI)
  assume wf: "(\<forall>c. q_capacity q = Some c \<and> c \<noteq> [] \<longrightarrow> (\<exists>n. parseInt c = Num n)) \<and>
    (\<forall>off. q_offset q = Some off \<and> off \<noteq> [] \<longrightarrow>
       (\<exists>k. 0 \<le> k \<and> k * 6 < 2 ^ 53 \<and> parseInt off = Num k))"
  have t: "0 \<le> k \<Longrightarrow> k * 6 < 2 ^ 53 \<Longrightarrow> times_js (Num k) 6 = Num (k * 6)" for k :: int
    by (simp add: times_js_def to_double_exact)
  have z: "times_js (Num 0) 6 = Num 0"
    by (simp add: times_js_def to_double_exact)
  from wf show "\<exists>ps. get_properties_paged q table = Response 200 (Properties ps)"
    unfolding get_properties_paged_def Property_findAll_def Let_def
    by (cases "q_capacity q"; cases "q_offset q") (auto simp: t z split: option.splits)
next
  fix ps
  assume a: "get_properties_paged q table = Response 200 (Properties ps)"
  define w where "w = (case q_capacity q of
               None \<Rightarrow> None
             | Some c \<Rightarrow> if c = [] then None else Some (parseInt c))"
  define dir where "dir = (case q_sort q of
               None \<Rightarrow> ''asc''
             | Some srt \<Rightarrow>
                 if srt \<noteq> [] \<and> (srt = ''asc'' \<or> srt = ''desc'') then srt else ''asc'')"
  define off where "off = (case q_offset q of
               None \<Rightarrow> Num 0
             | Some off \<Rightarrow> if off = [] then Num 0 else parseInt off)"
  from a have f: "Property_findAll table w dir 6 (times_js off 6) = Inr ps"
    unfolding get_properties_paged_def Let_def w_def dir_def off_def
    by (auto split: sum.splits)
  note r = Property_findAll_result [OF f]
  have d: "(dir = ''desc'') = (q_sort q = Some ''desc'')"
    by (auto simp: dir_def split: option.splits)
  show "length ps \<le> 6" using r by simp
  show "set ps \<subseteq> set table" using r by simp
  show "if q_sort q = Some ''desc'' then sorted_wrt (\<ge>) (map price ps)
       else sorted (map price ps)"
    using r d by simp
  show "\<And>c. q_capacity q = Some c \<and> c \<noteq> [] \<Longrightarrow> \<forall>p\<in>set ps. Num (capacity p) = parseInt c"
  proof -
    fix c
    assume c: "q_capacity q = Some c \<and> c \<noteq> []"
    then have wc: "w = Some (parseInt c)"
      by (simp add: w_def)
    from f wc obtain n where n: "parseInt c = Num n"
      by (cases "parseInt c")
        (auto simp: Property_findAll_def split: option.splits jsnum.splits if_splits)
    with r wc show "\<forall>p\<in>set ps. Num (capacity p) = parseInt c"
      by simp
  qed
qed

text \<open>
  \<^verbatim>\<open>GET /properties?capacity=4&sort=desc&offset=0\<close> in this revision, on the sample
  table: the six most expensive of the eight properties of capacity 4, by descending
  price. A page number of 22 digits is answered with 500.
\<close>

lemma paged_listing_sample:
  "get_properties_paged \<lparr>q_capacity = Some ''4'', q_sort = Some ''desc'', q_offset = Some ''0''\<rparr>
     demo_properties =
   Response 200 (Properties
     [mk_property 5 90 4, mk_property 8 80 4, mk_property 2 70 4, mk_property 7 60 4,
      mk_property 1 50 4, mk_property 9 40 4])"
  by (simp add: get_properties_paged_def Property_findAll_def order_by_price_def
      parseInt_samples times_js_def to_double_exact demo_properties_def mk_property_def)

lemma bit_length_numeral:
  "bit_length (numeral (Num.Bit0 n)) = Suc (bit_length (numeral n))"
  "bit_length (numeral (Num.Bit1 n)) = Suc (bit_length (numeral n))"
  "bit_length (Suc 0) = Suc 0"
  using bit_length.simps [of "numeral (Num.Bit0 n)"]
    bit_length.simps [of "numeral (Num.Bit1 n)"] bit_length.simps [of "Suc 0"]
    bit_length.simps [of 0]
  by (simp_all add: numeral_Bit0_div_2 numeral_Bit1_div_2)

text \<open>
  A double keeps 53 bits: \<open>2 ^ 53 + 1\<close> is read as \<open>2 ^ 53\<close>.
\<close>

lemma parseInt_rounds:
  "parseInt ''9007199254740993'' = Num 9007199254740992"
  "parseInt ''1000000000000000000000'' = Num 1000000000000000000000"
  by (simp_all add: parseInt_def regex_space_def digit_class_def less_eq_char_def to_double_def
      bit_length_numeral Let_def)

lemma times_js_sample: "times_js (Num 1000000000000000000000) 6 = Num 6000000000000000000000"
  by (simp add: times_js_def to_double_def bit_length_numeral Let_def)

lemma paged_listing_huge_offset:
  "get_properties_paged
     \<lparr>q_capacity = None, q_sort = None, q_offset = Some ''1000000000000000000000''\<rparr> table =
   Response 500 (Error ''Failed to retrieve properties.'')"
  by (simp add: get_properties_paged_def Property_findAll_def parseInt_rounds times_js_sample)

section \<open>Reservation overlap checker\<close>




text \<open>
  The reading of the query matters. On the server east of UTC the store holds a
  reservation from 2025-01-01 to 2025-01-05 as inserted, and a create from 2025-01-05
  to 2025-01-10 for the same property is answered with BookingConflict: the query
  reads the new arrival as two hours before the departure that the insert kept.
\<close>

lemma back_to_back_under_local_reading:
  "fst (post_reservation demo_rt_east \<lparr>userId = 2\<rparr> (booking 1 ''2025-01-05'' ''2025-01-10'')
     (snd (post_reservation demo_rt_east \<lparr>userId = 1\<rparr> (booking 1 ''2025-01-01'' ''2025-01-05'')
        (demo_store\<lparr>reservations := []\<rparr>)))) = BookingConflict"
  by (simp add: post_reservation_def findAll_def create_def booking_def demo_store_def
      demo_properties_def mk_property_def demo_rt_east_def demo_rt_def demo_dates_def
      date_le_def Op_lt_def Op_gt_def BookingConflict_def)



text \<open>
  An update with the dates the reservation already has is answered with status 200 and
  writes nothing: the row keeps its \<^verbatim>\<open>updatedAt\<close> stamp.
\<close>

lemma put_same_dates_writes_nothing:
  "put_reservation demo_rt \<lparr>userId = 1\<rparr> 1 (booking 1 ''2025-01-01'' ''2025-01-10'') demo_store =
     (Response 200 (Instance
        \<lparr>i_id = 1, i_arrivalTime = JSDate (Some 1735689600000),
         i_departureTime = JSDate (Some 1736467200000),
         i_createdAt = Column 1735000000, i_updatedAt = JSDate (Some 1735700000123),
         i_PropertyId = 1, i_UserId = 1\<rparr>),
      demo_store)"
  by (simp add: put_reservation_def findByPk_def findAll_def update_def booking_def
      demo_store_def demo_row_def demo_rt_def demo_dates_def date_le_def Op_lt_def Op_gt_def
      date_unchanged_def)

text \<open>
  Claim C3, as the handlers have it. When \<^verbatim>\<open>new Date\<close> reads the two strings as
  instants and the departure is not after the arrival, a create answers RangeInvalid
  (400) whatever the store holds, and so does an update when the reservation it names
  exists; an update of a reservation that does not exist answers NotFound (404), since
  the lookup comes before the range check. The store is unchanged in every case.
\<close>

theorem invalid_range_rejected:
  "jsDate rt (body_departureTime b) = Some d \<Longrightarrow>
   jsDate rt (body_arrivalTime b) = Some a \<Longrightarrow> d \<le> a \<Longrightarrow>
   post_reservation rt u b s = (RangeInvalid, s) \<and>
   (findByPk s k \<noteq> None \<longrightarrow> put_reservation rt u k b s = (RangeInvalid, s)) \<and>
   (findByPk s k = None \<longrightarrow> put_reservation rt u k b s = (NotFound, s))"
  by (auto simp: post_reservation_def put_reservation_def date_le_def RangeInvalid_def
      NotFound_def)

text \<open>
  A range from 2025-01-20 to 2025-01-20 on the sample store, as a create and as an
  update of reservation 1.
\<close>

theorem invalid_range_rejected_witness:
  "post_reservation demo_rt \<lparr>userId = 2\<rparr> (booking 1 ''2025-01-20'' ''2025-01-20'') demo_store
     = (RangeInvalid, demo_store) \<and>
   put_reservation demo_rt \<lparr>userId = 2\<rparr> 1 (booking 1 ''2025-01-20'' ''2025-01-20'') demo_store
     = (RangeInvalid, demo_store)"
proof -
  have j: "jsDate demo_rt (body_departureTime (booking 1 ''2025-01-20'' ''2025-01-20'')) =
      Some 1737331200000"
    "jsDate demo_rt (body_arrivalTime (booking 1 ''2025-01-20'' ''2025-01-20'')) =
      Some 1737331200000"
    by (simp_all add: booking_def demo_rt_def demo_dates_def)
  have f: "findByPk demo_store 1 \<noteq> None"
    by (simp add: findByPk_def demo_store_def demo_row_def)
  show ?thesis
    using invalid_range_rejected [OF j, of "\<lparr>userId = 2\<rparr>" demo_store 1] f
    by simp
qed

text \<open>
  C3 as stated fails for an update: reservation 7 does not exist in the sample store,
  and an update of it from 2025-01-20 to 2025-01-10 answers NotFound, not
  RangeInvalid.
\<close>

theorem invalid_range_rejected_counterexample:
  "jsDate demo_rt ''2025-01-10'' = Some 1736467200000 \<and>
   jsDate demo_rt ''2025-01-20'' = Some 1737331200000 \<and>
   put_reservation demo_rt \<lparr>userId = 1\<rparr> 7 (booking 1 ''2025-01-20'' ''2025-01-10'') demo_store
     = (NotFound, demo_store) \<and>
   NotFound \<noteq> RangeInvalid"
  by (simp add: put_reservation_def findByPk_def demo_store_def demo_row_def demo_rt_def
      demo_dates_def NotFound_def RangeInvalid_def)

section \<open>Auth gate, ownership and the frame of an update\<close>

text \<open>
  Claim C5. Without an Authorization header, or with one that does not start with
  \<^verbatim>\<open>Bearer \<close>, the gate answers 401 and a protected route leaves the store as it is
  whatever its handler would do: the handler does not run. With a header that starts
  with \<^verbatim>\<open>Bearer \<close> and a token that \<open>verify\<close> rejects, the answer is 400, again
  without the handler. The token handed to \<open>verify\<close> is the header without its
  prefix.
\<close>

theorem auth_gate:
  "((authHeader = None \<or> (\<exists>h. authHeader = Some h \<and> \<not> startsWith h ''Bearer '')) \<longrightarrow>
      authenticateJWT verify authHeader =
        Inl (Response 401 (Error ''Access denied. No token provided.'')) \<and>
      (\<forall>handler s. protected verify authHeader handler s =
        (Response 401 (Error ''Access denied. No token provided.''), s))) \<and>
   ((\<exists>h. authHeader = Some h \<and> startsWith h ''Bearer '' \<and>
          verify (replace h ''Bearer '' []) = None) \<longrightarrow>
      authenticateJWT verify authHeader = Inl (Response 400 (Error ''Invalid token.'')) \<and>
      (\<forall>handler s. protected verify authHeader handler s =
        (Response 400 (Error ''Invalid token.''), s))) \<and>
   (\<forall>tok. replace (''Bearer '' @ tok) ''Bearer '' [] = tok)"
proof -
  have r: "replace (''Bearer '' @ tok) ''Bearer '' [] = tok" for tok
    using replace_prefix [of "''Bearer ''" tok "[]"] by simp
  have n: "startsWith h ''Bearer '' \<Longrightarrow> h \<noteq> []" for h
    by (auto simp: startsWith_def)
  show ?thesis
    unfolding protected_def authenticateJWT_def
    using r n by (auto simp del: replace.simps split: option.splits)
qed

text \<open>
  No header, a header of another scheme, and a bearer token the sample check does not
  know.
\<close>

theorem auth_gate_witness:
  "authenticateJWT demo_verify None =
     Inl (Response 401 (Error ''Access denied. No token provided.'')) \<and>
   authenticateJWT demo_verify (Some ''Basic alice'') =
     Inl (Response 401 (Error ''Access denied. No token provided.'')) \<and>
   authenticateJWT demo_verify (Some ''Bearer mallory'') =
     Inl (Response 400 (Error ''Invalid token.''))"
proof -
  have a: "\<not> startsWith ''Basic alice'' ''Bearer ''"
    by (simp add: startsWith_def)
  have b: "startsWith ''Bearer mallory'' ''Bearer ''"
    by (simp add: startsWith_def)
  have c: "demo_verify (replace ''Bearer mallory'' ''Bearer '' []) = None"
    by (simp add: startsWith_def demo_verify_def)
  show ?thesis
    using auth_gate [of None demo_verify] auth_gate [of "Some ''Basic alice''" demo_verify]
      auth_gate [of "Some ''Bearer mallory''" demo_verify] a b c
    by simp
qed

text \<open>
  Claim C6. For a caller whose token verifies as \<open>u\<close>, \<^verbatim>\<open>GET /reservations\<close> answers
  200 with the stored reservations whose UserId is the userId of \<open>u\<close>, all of them and
  no others, and leaves the store unchanged.
\<close>

theorem list_own_reservations_only:
  "verify tok = Some u \<Longrightarrow>
   (\<exists>rs. protected verify (Some (bearer tok)) get_reservations s =
            (Response 200 (Reservations rs), s) \<and>
         rs = filter (\<lambda>e. UserId e = userId u) (reservations s) \<and>
         set rs = {e \<in> set (reservations s). UserId e = userId u})"
  by (simp add: protected_bearer get_reservations_def findAll_def)

text \<open>
  The sample store holds one reservation, of the first caller: the second caller gets
  the empty list, the first caller gets the reservation.
\<close>

theorem list_own_reservations_only_witness:
  "(\<exists>rs. protected demo_verify (Some (bearer ''bob'')) get_reservations demo_store =
            (Response 200 (Reservations rs), demo_store) \<and> rs = []) \<and>
   (\<exists>rs. protected demo_verify (Some (bearer ''alice'')) get_reservations demo_store =
            (Response 200 (Reservations rs), demo_store) \<and> rs = reservations demo_store)"
proof -
  have a: "demo_verify ''alice'' = Some \<lparr>userId = 1\<rparr>"
    and b: "demo_verify ''bob'' = Some \<lparr>userId = 2\<rparr>"
    by (simp_all add: demo_verify_def)
  show ?thesis
    using list_own_reservations_only [of demo_verify "''alice''" "\<lparr>userId = 1\<rparr>" demo_store]
      list_own_reservations_only [of demo_verify "''bob''" "\<lparr>userId = 2\<rparr>" demo_store] a b
    by (simp add: demo_store_def demo_row_def)
qed

text \<open>
  Claim C7. When \<^verbatim>\<open>POST /reservations\<close> of a caller whose token verifies as \<open>u\<close>
  answers 201, the instance it sends and the row it appends to the table, under the
  same key, have the userId of \<open>u\<close> as UserId; and the members of the body other than
  propertyId, arrivalTime and departureTime have no influence: with any other such
  members the response and the store are the same.
\<close>

theorem created_owner_is_caller:
  "verify tok = Some u \<Longrightarrow>
   protected verify (Some (bearer tok)) (\<lambda>user. post_reservation rt user b) s =
     (Response 201 j, s') \<Longrightarrow>
   (\<exists>i r. j = Instance i \<and> i_UserId i = userId u \<and> UserId r = userId u \<and>
        rid r = i_id i \<and> PropertyId r = i_PropertyId i \<and>
        reservations s' = reservations s @ [r]) \<and>
   (\<forall>x. protected verify (Some (bearer tok))
          (\<lambda>user. post_reservation rt user (b\<lparr>others := x\<rparr>)) s = (Response 201 j, s'))"
  by (auto simp: protected_bearer post_reservation_def create_def Let_def
      split: if_splits option.splits)

text \<open>
  The second caller books property 1 from 2025-01-10 to 2025-01-20 with a body that
  carries \<^verbatim>\<open>UserId: 1\<close>: the reservation is created with UserId 2.
\<close>

theorem created_owner_is_caller_witness:
  "protected demo_verify (Some (bearer ''bob''))
     (\<lambda>user. post_reservation demo_rt user
        ((booking 1 ''2025-01-10'' ''2025-01-20'')\<lparr>others := [(''UserId'', ''1'')]\<rparr>))
     demo_store =
   (Response 201 (Instance
        \<lparr>i_id = 2, i_arrivalTime = JSDate (Some 1736467200000),
         i_departureTime = JSDate (Some 1737331200000),
         i_createdAt = JSDate (Some 1735700000123), i_updatedAt = JSDate (Some 1735700000123),
         i_PropertyId = 1, i_UserId = 2\<rparr>),
    demo_store\<lparr>reservations := [demo_row,
        \<lparr>rid = 2, arrivalTime = 1736467200, departureTime = 1737331200,
         createdAt = 1735700000, updatedAt = 1735700000, PropertyId = 1, UserId = 2\<rparr>]\<rparr>)"
proof -
  have b: "demo_verify ''bob'' = Some \<lparr>userId = 2\<rparr>"
    by (simp add: demo_verify_def)
  have p: "protected demo_verify (Some (bearer ''bob''))
     (\<lambda>user. post_reservation demo_rt user
        ((booking 1 ''2025-01-10'' ''2025-01-20'')\<lparr>others := [(''UserId'', ''1'')]\<rparr>))
     demo_store =
   (Response 201 (Instance
        \<lparr>i_id = 2, i_arrivalTime = JSDate (Some 1736467200000),
         i_departureTime = JSDate (Some 1737331200000),
         i_createdAt = JSDate (Some 1735700000123), i_updatedAt = JSDate (Some 1735700000123),
         i_PropertyId = 1, i_UserId = 2\<rparr>),
    demo_store\<lparr>reservations := [demo_row,
        \<lparr>rid = 2, arrivalTime = 1736467200, departureTime = 1737331200,
         createdAt = 1735700000, updatedAt = 1735700000, PropertyId = 1, UserId = 2\<rparr>]\<rparr>)"
    using b by (simp add: protected_bearer post_reservation_def findAll_def create_def
        booking_def demo_store_def demo_row_def demo_properties_def mk_property_def
        demo_rt_def demo_dates_def date_le_def Op_lt_def Op_gt_def)
  show ?thesis
    using created_owner_is_caller [of demo_verify "''bob''" "\<lparr>userId = 2\<rparr>", OF b p] p
    by simp
qed

text \<open>
  Claim C9. For two callers with tokens that verify, \<^verbatim>\<open>GET\<close>, \<^verbatim>\<open>PUT\<close> and
  \<^verbatim>\<open>DELETE /reservations/:id\<close> give the same response and the same store. So for an
  existing reservation \<open>r\<close>, whoever owns it, any such caller reads it, deletes it, and
  updates it: with a range that the range check lets pass, that no other reservation
  of its property overlaps and that the store accepts, the update answers 200 and the
  rows of that key hold the new dates (they are left as they are when both dates are
  those the reservation was loaded with).
\<close>

theorem per_id_routes_ignore_caller:
  "verify t1 = Some u1 \<Longrightarrow> verify t2 = Some u2 \<Longrightarrow>
   protected verify (Some (bearer t1)) (\<lambda>user. get_reservation user k) s =
     protected verify (Some (bearer t2)) (\<lambda>user. get_reservation user k) s \<and>
   protected verify (Some (bearer t1)) (\<lambda>user. put_reservation rt user k b) s =
     protected verify (Some (bearer t2)) (\<lambda>user. put_reservation rt user k b) s \<and>
   protected verify (Some (bearer t1)) (\<lambda>user. delete_reservation user k) s =
     protected verify (Some (bearer t2)) (\<lambda>user. delete_reservation user k) s \<and>
   (\<forall>r. findByPk s k = Some r \<longrightarrow>
      protected verify (Some (bearer t1)) (\<lambda>user. get_reservation user k) s =
        (Response 200 (Reservation r), s) \<and>
      protected verify (Some (bearer t1)) (\<lambda>user. delete_reservation user k) s =
        (Response 200 (Message ''Reservation deleted successfully.''),
         s\<lparr>reservations := filter (\<lambda>e. rid e \<noteq> rid r) (reservations s)\<rparr>) \<and>
      (\<forall>A D ca cd.
         \<not> date_le rt (body_departureTime b) (body_arrivalTime b) \<and>
         whereDate rt (body_arrivalTime b) = Value A \<and>
         whereDate rt (body_departureTime b) = Value D \<and>
         \<not> (\<exists>e\<in>set (reservations s). rid e \<noteq> rid r \<and> overlaps e (PropertyId r) A D) \<and>
         columnDate rt (body_arrivalTime b) = Some ca \<and>
         columnDate rt (body_departureTime b) = Some cd \<longrightarrow>
         protected verify (Some (bearer t1)) (\<lambda>user. put_reservation rt user k b) s =
           (Response 200 (Instance
              \<lparr>i_id = rid r, i_arrivalTime = JSDate (jsDate rt (body_arrivalTime b)),
               i_departureTime = JSDate (jsDate rt (body_departureTime b)),
               i_createdAt = Column (createdAt r), i_updatedAt = JSDate (Some (now rt)),
               i_PropertyId = PropertyId r, i_UserId = UserId r\<rparr>),
            if date_unchanged rt (body_arrivalTime b) (arrivalTime r) \<and>
               date_unchanged rt (body_departureTime b) (departureTime r)
            then s
            else s\<lparr>reservations :=
                map (\<lambda>e. if rid e = rid r
                         then e\<lparr>arrivalTime := ca, departureTime := cd,
                                updatedAt := nowColumn rt\<rparr>
                         else e) (reservations s)\<rparr>)))"
proof (intro conjI allI impI)
  assume v: "verify t1 = Some u1" "verify t2 = Some u2"
  show "protected verify (Some (bearer t1)) (\<lambda>user. get_reservation user k) s =
     protected verify (Some (bearer t2)) (\<lambda>user. get_reservation user k) s"
    using v by (simp add: protected_bearer get_reservation_def)
  show "protected verify (Some (bearer t1)) (\<lambda>user. put_reservation rt user k b) s =
     protected verify (Some (bearer t2)) (\<lambda>user. put_reservation rt user k b) s"
    using v by (simp add: protected_bearer put_reservation_def)
  show "protected verify (Some (bearer t1)) (\<lambda>user. delete_reservation user k) s =
     protected verify (Some (bearer t2)) (\<lambda>user. delete_reservation user k) s"
    using v by (simp add: protected_bearer delete_reservation_def)
  fix r
  assume f: "findByPk s k = Some r"
  show "protected verify (Some (bearer t1)) (\<lambda>user. get_reservation user k) s =
        (Response 200 (Reservation r), s)"
    using v f by (simp add: protected_bearer get_reservation_def)
  show "protected verify (Some (bearer t1)) (\<lambda>user. delete_reservation user k) s =
        (Response 200 (Message ''Reservation deleted successfully.''),
         s\<lparr>reservations := filter (\<lambda>e. rid e \<noteq> rid r) (reservations s)\<rparr>)"
    using v f by (simp add: protected_bearer delete_reservation_def destroy_def)
  fix A D ca cd
  assume h: "\<not> date_le rt (body_departureTime b) (body_arrivalTime b) \<and>
         whereDate rt (body_arrivalTime b) = Value A \<and>
         whereDate rt (body_departureTime b) = Value D \<and>
         \<not> (\<exists>e\<in>set (reservations s). rid e \<noteq> rid r \<and> overlaps e (PropertyId r) A D) \<and>
         columnDate rt (body_arrivalTime b) = Some ca \<and>
         columnDate rt (body_departureTime b) = Some cd"
  then have a: "whereDate rt (body_arrivalTime b) = Value A"
    and d: "whereDate rt (body_departureTime b) = Value D"
    by simp_all
  show "protected verify (Some (bearer t1)) (\<lambda>user. put_reservation rt user k b) s =
           (Response 200 (Instance
              \<lparr>i_id = rid r, i_arrivalTime = JSDate (jsDate rt (body_arrivalTime b)),
               i_departureTime = JSDate (jsDate rt (body_departureTime b)),
               i_createdAt = Column (createdAt r), i_updatedAt = JSDate (Some (now rt)),
               i_PropertyId = PropertyId r, i_UserId = UserId r\<rparr>),
            if date_unchanged rt (body_arrivalTime b) (arrivalTime r) \<and>
               date_unchanged rt (body_departureTime b) (departureTime r)
            then s
            else s\<lparr>reservations :=
                map (\<lambda>e. if rid e = rid r
                         then e\<lparr>arrivalTime := ca, departureTime := cd,
                                updatedAt := nowColumn rt\<rparr>
                         else e) (reservations s)\<rparr>)"
    using v f h by (auto simp: protected_bearer put_cases [OF a d] update_def Let_def)
qed

text \<open>
  The second caller reads, deletes and updates the reservation of the first.
\<close>

theorem per_id_routes_ignore_caller_witness:
  "UserId demo_row \<noteq> userId \<lparr>userId = 2\<rparr> \<and>
   protected demo_verify (Some (bearer ''bob'')) (\<lambda>user. get_reservation user 1) demo_store =
     (Response 200 (Reservation demo_row), demo_store) \<and>
   protected demo_verify (Some (bearer ''bob'')) (\<lambda>user. delete_reservation user 1) demo_store =
     (Response 200 (Message ''Reservation deleted successfully.''),
      demo_store\<lparr>reservations := []\<rparr>) \<and>
   protected demo_verify (Some (bearer ''bob''))
     (\<lambda>user. put_reservation demo_rt user 1 (booking 1 ''2025-01-20'' ''2025-01-30''))
     demo_store =
     (Response 200 (Instance
        \<lparr>i_id = 1, i_arrivalTime = JSDate (Some 1737331200000),
         i_departureTime = JSDate (Some 1738195200000),
         i_createdAt = Column 1735000000, i_updatedAt = JSDate (Some 1735700000123),
         i_PropertyId = 1, i_UserId = 1\<rparr>),
      demo_store\<lparr>reservations :=
        [\<lparr>rid = 1, arrivalTime = 1737331200, departureTime = 1738195200,
          createdAt = 1735000000, updatedAt = 1735700000, PropertyId = 1, UserId = 1\<rparr>]\<rparr>)"
proof -
  have a: "demo_verify ''alice'' = Some \<lparr>userId = 1\<rparr>"
    and b: "demo_verify ''bob'' = Some \<lparr>userId = 2\<rparr>"
    by (simp_all add: demo_verify_def)
  have f: "findByPk demo_store 1 = Some demo_row"
    by (simp add: findByPk_def demo_store_def demo_row_def)
  have c: "\<not> date_le demo_rt ''2025-01-30'' ''2025-01-20''"
    "whereDate demo_rt ''2025-01-20'' = Value 1737331200"
    "whereDate demo_rt ''2025-01-30'' = Value 1738195200"
    "columnDate demo_rt ''2025-01-20'' = Some 1737331200"
    "columnDate demo_rt ''2025-01-30'' = Some 1738195200"
    "jsDate demo_rt ''2025-01-20'' = Some 1737331200000"
    "jsDate demo_rt ''2025-01-30'' = Some 1738195200000"
    "now demo_rt = 1735700000123" "nowColumn demo_rt = 1735700000"
    "\<not> date_unchanged demo_rt ''2025-01-20'' 1735689600"
    by (simp_all add: date_le_def demo_rt_def demo_dates_def date_unchanged_def)
  show ?thesis
    using per_id_routes_ignore_caller [of demo_verify "''bob''" "\<lparr>userId = 2\<rparr>"
        "''alice''" "\<lparr>userId = 1\<rparr>" 1 demo_store demo_rt
        "booking 1 ''2025-01-20'' ''2025-01-30''"] a b f c
    by (auto simp: booking_def demo_store_def demo_row_def overlaps_def)
qed




section \<open>Validation pipeline\<close>

text \<open>
  Claim C8. The password chain of \<^verbatim>\<open>validateUser\<close> reports no error if and only if
  the password has at least 10 characters, an uppercase letter, a lowercase letter and a
  special character, and the signup passes \<^verbatim>\<open>validateUser\<close> if and only if the
  password does so and the other fields pass their checks. A signup that does not pass
  is answered with status 400 and a list of errors in which each of the four password
  messages stands exactly when its check fails: the minimum-length message exactly
  when the password is shorter than 10. So a signup with \<^verbatim>\<open>short1!\<close> fails with the
  minimum-length message among its errors, whatever the other fields are, and
  \<^verbatim>\<open>LongEnough1!\<close> meets the rule.
\<close>

theorem password_validation:
  "(run_validators password_validators pw = [] \<longleftrightarrow> password_policy pw) \<and>
   (validateUser isEmail b = Inr () \<longleftrightarrow>
      isEmail (email b) \<and> email_format (email b) \<and> password_policy (password b) \<and>
      firstName b \<noteq> [] \<and> lastName b \<noteq> [] \<and> phoneNumber b \<noteq> []) \<and>
   (validateUser isEmail b \<noteq> Inr () \<longrightarrow>
      (\<exists>errs. validateUser isEmail b = Inl (Response 400 (Errors errs)) \<and> errs \<noteq> [] \<and>
         (''Password must be at least 10 characters long'' \<in> set errs
            \<longleftrightarrow> length (password b) < 10) \<and>
         (''Password must contain at least one uppercase letter'' \<in> set errs
            \<longleftrightarrow> \<not> (\<exists>c\<in>set (password b). upper_class c)) \<and>
         (''Password must contain at least one lowercase letter'' \<in> set errs
            \<longleftrightarrow> \<not> (\<exists>c\<in>set (password b). lower_class c)) \<and>
         (''Password must contain at least one special character'' \<in> set errs
            \<longleftrightarrow> \<not> (\<exists>c\<in>set (password b). special_class c)))) \<and>
   (password b = ''short1!'' \<longrightarrow>
      (\<exists>errs. validateUser isEmail b = Inl (Response 400 (Errors errs)) \<and>
         ''Password must be at least 10 characters long'' \<in> set errs)) \<and>
   password_policy ''LongEnough1!'' \<and> \<not> password_policy ''short1!''"
proof -
  let ?errs = "run_validators
              [(isEmail, ''Must be a valid email''),
               (email_format, ''Must be a valid email format'')] (email b)
            @ run_validators password_validators (password b)
            @ run_validators [(notEmpty, ''First name is required'')] (firstName b)
            @ run_validators [(notEmpty, ''Last name is required'')] (lastName b)
            @ run_validators [(notEmpty, ''Phone number is required'')] (phoneNumber b)"
  have acc: "validateUser isEmail b = Inr () \<longleftrightarrow>
      isEmail (email b) \<and> email_format (email b) \<and> password_policy (password b) \<and>
      firstName b \<noteq> [] \<and> lastName b \<noteq> [] \<and> phoneNumber b \<noteq> []"
    by (simp add: validateUser_cases)
  have rej: "validateUser isEmail b \<noteq> Inr () \<Longrightarrow>
      validateUser isEmail b = Inl (Response 400 (Errors ?errs)) \<and> ?errs \<noteq> []"
    unfolding validateUser_def Let_def by (simp split: if_splits)
  have mem: "m \<in> set ?errs \<longleftrightarrow> m \<in> set (run_validators password_validators (password b))"
    if "m = ''Password must be at least 10 characters long'' \<or>
        m = ''Password must contain at least one uppercase letter'' \<or>
        m = ''Password must contain at least one lowercase letter'' \<or>
        m = ''Password must contain at least one special character''" for m
    using that email_messages [of m isEmail "email b"]
      notEmpty_messages [of m "''First name is required''" "firstName b"]
      notEmpty_messages [of m "''Last name is required''" "lastName b"]
      notEmpty_messages [of m "''Phone number is required''" "phoneNumber b"]
    by auto
  have pol: "password_policy ''LongEnough1!''" "\<not> password_policy ''short1!''"
    using long_errors short_errors password_errors_policy [of "''LongEnough1!''"]
      password_errors_policy [of "''short1!''"] by simp_all
  note mem1 = mem [OF disjI1 [OF refl]]
  note mem2 = mem [OF disjI2 [OF disjI1 [OF refl]]]
  note mem3 = mem [OF disjI2 [OF disjI2 [OF disjI1 [OF refl]]]]
  note mem4 = mem [OF disjI2 [OF disjI2 [OF disjI2 [OF refl]]]]
  have m1: "''Password must be at least 10 characters long'' \<in> set ?errs
      \<longleftrightarrow> length (password b) < 10"
    by (simp only: mem1 password_messages)
  have m2: "''Password must contain at least one uppercase letter'' \<in> set ?errs
      \<longleftrightarrow> \<not> (\<exists>c\<in>set (password b). upper_class c)"
    by (simp only: mem2 password_messages)
  have m3: "''Password must contain at least one lowercase letter'' \<in> set ?errs
      \<longleftrightarrow> \<not> (\<exists>c\<in>set (password b). lower_class c)"
    by (simp only: mem3 password_messages)
  have m4: "''Password must contain at least one special character'' \<in> set ?errs
      \<longleftrightarrow> \<not> (\<exists>c\<in>set (password b). special_class c)"
    by (simp only: mem4 password_messages)
  have failing: "\<exists>errs. validateUser isEmail b = Inl (Response 400 (Errors errs)) \<and> errs \<noteq> [] \<and>
         (''Password must be at least 10 characters long'' \<in> set errs
            \<longleftrightarrow> length (password b) < 10) \<and>
         (''Password must contain at least one uppercase letter'' \<in> set errs
            \<longleftrightarrow> \<not> (\<exists>c\<in>set (password b). upper_class c)) \<and>
         (''Password must contain at least one lowercase letter'' \<in> set errs
            \<longleftrightarrow> \<not> (\<exists>c\<in>set (password b). lower_class c)) \<and>
         (''Password must contain at least one special character'' \<in> set errs
            \<longleftrightarrow> \<not> (\<exists>c\<in>set (password b). special_class c))"
    if "validateUser isEmail b \<noteq> Inr ()"
    using rej [OF that] m1 m2 m3 m4 by (intro exI [of _ ?errs]) (simp only: simp_thms)
  have short: "\<exists>errs. validateUser isEmail b = Inl (Response 400 (Errors errs)) \<and>
         ''Password must be at least 10 characters long'' \<in> set errs"
    if p: "password b = ''short1!''"
  proof -
    have "validateUser isEmail b \<noteq> Inr ()"
      using acc pol(2) p by simp
    from rej [OF this] have "validateUser isEmail b = Inl (Response 400 (Errors ?errs))"
      by (rule conjunct1)
    moreover have "''Password must be at least 10 characters long'' \<in> set ?errs"
      unfolding m1 using p by simp
    ultimately show ?thesis
      by (intro exI [of _ ?errs] conjI)
  qed
  from password_errors_policy acc failing short pol show ?thesis
    by (intro conjI impI)
qed

text \<open>
  Three signups that differ in the password only: one that meets the rule, the short
  one, and ten lowercase letters.
\<close>

theorem password_validation_witness:
  "validateUser (\<lambda>v. True)
     \<lparr>email = ''ana@example.com'', password = ''LongEnough1!'', firstName = ''Ana'',
      lastName = ''Pop'', phoneNumber = ''0700''\<rparr> = Inr () \<and>
   validateUser (\<lambda>v. True)
     \<lparr>email = ''ana@example.com'', password = ''short1!'', firstName = ''Ana'',
      lastName = ''Pop'', phoneNumber = ''0700''\<rparr> \<noteq> Inr () \<and>
   validateUser (\<lambda>v. True)
     \<lparr>email = ''ana@example.com'', password = ''aaaaaaaaaa'', firstName = ''Ana'',
      lastName = ''Pop'', phoneNumber = ''0700''\<rparr> \<noteq> Inr ()"
proof -
  have e: "email_format ''ana@example.com''"
    by (simp add: email_format_def regex_space_def upt_rec)
  have p: "\<not> password_policy ''aaaaaaaaaa''"
    by (simp add: password_policy_def upper_class_def less_eq_char_def)
  show ?thesis
    using password_validation [of "''LongEnough1!''" "\<lambda>v. True"
        "\<lparr>email = ''ana@example.com'', password = ''LongEnough1!'', firstName = ''Ana'',
          lastName = ''Pop'', phoneNumber = ''0700''\<rparr>"]
      password_validation [of "''short1!''" "\<lambda>v. True"
        "\<lparr>email = ''ana@example.com'', password = ''short1!'', firstName = ''Ana'',
          lastName = ''Pop'', phoneNumber = ''0700''\<rparr>"]
      password_validation [of "''aaaaaaaaaa''" "\<lambda>v. True"
        "\<lparr>email = ''ana@example.com'', password = ''aaaaaaaaaa'', firstName = ''Ana'',
          lastName = ''Pop'', phoneNumber = ''0700''\<rparr>"]
      e p
    by simp
qed

section \<open>Property listing\<close>


end
